theory Spec2Isabelle
  imports Main
begin

section \<open>Python values and exceptions\<close>

text \<open>
  The automation engine of \<^verbatim>\<open>octobot/automation/automation.py\<close> reads a configuration
  that was loaded from JSON. The values it handles are modelled by one datatype, so that
  every dynamic failure of the Python code (a missing key, a name that cannot be
  iterated, an unhashable key) is a branch of the model. JSON booleans and floats are
  not represented; a dictionary is an association list in insertion order (Python
  dictionaries keep it), and \<open>map_of\<close> reads the first binding of a key.
\<close>

datatype cfg_value =
    VNone
  | VInt int
  | VStr string
  | VList "cfg_value list"
  | VDict "(string \<times> cfg_value) list"

text \<open>
  The exceptions the code can meet. All are subclasses of Python's \<^verbatim>\<open>Exception\<close> except
  \<open>CancelledError\<close> (what \<^verbatim>\<open>task.cancel()\<close> injects) and \<open>BaseExceptionOther\<close>, which derive
  from \<^verbatim>\<open>BaseException\<close> only; \<^verbatim>\<open>except Exception\<close> does not catch those two.
\<close>

datatype error =
    KeyError
  | TypeError
  | AttributeError
  | ValueError
  | DisabledError
  | StepError string
  | CancelledError
  | BaseExceptionOther string

fun is_Exception :: "error \<Rightarrow> bool" where
  "is_Exception CancelledError = False"
| "is_Exception (BaseExceptionOther m) = False"
| "is_Exception e = True"

text \<open>\<^verbatim>\<open>d.get(key, default)\<close>: only a dictionary has the method.\<close>

fun py_get :: "cfg_value \<Rightarrow> string \<Rightarrow> cfg_value \<Rightarrow> error + cfg_value" where
  "py_get (VDict kvs) k dflt = Inr (case map_of kvs k of None \<Rightarrow> dflt | Some v \<Rightarrow> v)"
| "py_get v k dflt = Inl AttributeError"

text \<open>\<^verbatim>\<open>d[key]\<close> with a string key: a missing key raises, a string or list refuses a string
  index, the other values are not subscriptable.\<close>

fun py_getitem :: "cfg_value \<Rightarrow> string \<Rightarrow> error + cfg_value" where
  "py_getitem (VDict kvs) k = (case map_of kvs k of None \<Rightarrow> Inl KeyError | Some v \<Rightarrow> Inr v)"
| "py_getitem v k = Inl TypeError"

text \<open>\<^verbatim>\<open>d.items()\<close>.\<close>

fun py_items :: "cfg_value \<Rightarrow> error + (string \<times> cfg_value) list" where
  "py_items (VDict kvs) = Inr kvs"
| "py_items v = Inl AttributeError"

text \<open>\<^verbatim>\<open>for x in v\<close>: a list yields its elements, a string its characters (each a string of
  length one), a dictionary its keys.\<close>

fun py_iter :: "cfg_value \<Rightarrow> error + cfg_value list" where
  "py_iter (VList xs) = Inr xs"
| "py_iter (VStr s) = Inr (map (\<lambda>c. VStr [c]) s)"
| "py_iter (VDict kvs) = Inr (map (\<lambda>kv. VStr (fst kv)) kvs)"
| "py_iter v = Inl TypeError"

text \<open>\<^verbatim>\<open>n > v\<close> for an integer \<open>n\<close>: ordered against an integer only.\<close>

fun py_gt :: "int \<Rightarrow> cfg_value \<Rightarrow> error + bool" where
  "py_gt n (VInt c) = Inr (n > c)"
| "py_gt n v = Inl TypeError"

subsection \<open>\<^verbatim>\<open>int(s)\<close> on a string\<close>

text \<open>
  Python's \<^verbatim>\<open>int\<close> strips surrounding whitespace, accepts one sign, and then decimal digits
  in which single underscores may separate digits. Only ASCII is modelled, and the
  limit that recent versions put on the number of digits is left out.
\<close>

text \<open>The position of a character in a string, if it occurs.\<close>

fun char_index :: "char \<Rightarrow> string \<Rightarrow> int option" where
  "char_index c [] = None"
| "char_index c (x # xs) =
     (if c = x then Some 0 else map_option (\<lambda>i. i + 1) (char_index c xs))"

definition digit_val :: "char \<Rightarrow> int option" where
  "digit_val c = char_index c ''0123456789''"

definition is_space :: "char \<Rightarrow> bool" where
  "is_space c \<longleftrightarrow> c = CHR '' '' \<or> c = CHR 0x09 \<or> c = CHR 0x0A \<or> c = CHR 0x0B
     \<or> c = CHR 0x0C \<or> c = CHR 0x0D \<or> c = CHR 0x1C \<or> c = CHR 0x1D
     \<or> c = CHR 0x1E \<or> c = CHR 0x1F"

definition strip :: "string \<Rightarrow> string" where
  "strip s = rev (dropWhile is_space (rev (dropWhile is_space s)))"

text \<open>\<open>py_digits cs acc\<close> reads the rest of a numeral after at least one digit.\<close>

fun py_digits :: "string \<Rightarrow> int \<Rightarrow> int option" where
  "py_digits [] acc = Some acc"
| "py_digits (c # cs) acc =
     (case digit_val c of
        Some d \<Rightarrow> py_digits cs (10 * acc + d)
      | None \<Rightarrow>
          (if c = CHR ''_'' then
             (case cs of
                [] \<Rightarrow> None
              | c' # cs' \<Rightarrow> (case digit_val c' of None \<Rightarrow> None | Some d \<Rightarrow> py_digits cs acc))
           else None))"

definition py_unsigned :: "string \<Rightarrow> int option" where
  "py_unsigned s =
     (case s of
        [] \<Rightarrow> None
      | c # cs \<Rightarrow> (case digit_val c of None \<Rightarrow> None | Some d \<Rightarrow> py_digits s 0))"

definition py_int :: "string \<Rightarrow> error + int" where
  "py_int s =
     (case strip s of
        [] \<Rightarrow> Inl ValueError
      | c # cs \<Rightarrow>
          (if c = CHR ''-'' then
             (case py_unsigned cs of None \<Rightarrow> Inl ValueError | Some n \<Rightarrow> Inr (- n))
           else if c = CHR ''+'' then
             (case py_unsigned cs of None \<Rightarrow> Inl ValueError | Some n \<Rightarrow> Inr n)
           else
             (case py_unsigned (c # cs) of None \<Rightarrow> Inl ValueError | Some n \<Rightarrow> Inr n)))"

section \<open>Steps, rules and the registry\<close>

text \<open>
  A step (trigger event, condition or action) is an instance of a class found by name in
  the registry. The classes live outside this file; \<open>'c\<close> is the type of classes. An
  instance is the class and the configuration \<^verbatim>\<open>apply_config\<close> gave it; constructing
  an instance and applying its configuration are taken not to raise.

  Python names that begin with an underscore are written without it
  (\<^verbatim>\<open>_create_step\<close> is \<open>create_step\<close>), since an Isabelle name starts with a letter.
\<close>

record 'c step =
  step_class :: 'c
  step_config :: cfg_value

text \<open>\<^verbatim>\<open>class AutomationDetails\<close>.\<close>

record 'c AutomationDetails =
  trigger_event :: "'c step"
  conditions :: "'c step list"
  actions :: "'c step list"

text \<open>What \<^verbatim>\<open>get_all_steps\<close> returns: three dictionaries from a registered name to its
  class. The registry is an external collaborator, so it is a parameter.\<close>

record 'c all_steps =
  all_events :: "string \<Rightarrow> 'c option"
  all_conditions :: "string \<Rightarrow> 'c option"
  all_actions :: "string \<Rightarrow> 'c option"

definition AUTOMATIONS :: string where "AUTOMATIONS = ''automations''"
definition AUTOMATIONS_COUNT :: string where "AUTOMATIONS_COUNT = ''automations_count''"
definition TRIGGER_EVENT :: string where "TRIGGER_EVENT = ''trigger_event''"
definition CONDITIONS :: string where "CONDITIONS = ''conditions''"
definition ACTIONS :: string where "ACTIONS = ''actions''"

section \<open>The binding pass\<close>

text \<open>
  \<^verbatim>\<open>_create_step(automations_config, step_name, classes)\<close>:
  \<^verbatim>\<open>step = classes[step_name]()\<close>, then
  \<^verbatim>\<open>step.apply_config(automations_config.get(step_name, {}))\<close>.
  The keys of \<open>classes\<close> are strings, so a hashable name that is not a string is a missing
  key, and a list or dictionary is unhashable. Nothing catches the \<open>KeyError\<close>.
\<close>

fun create_step :: "cfg_value \<Rightarrow> cfg_value \<Rightarrow> (string \<Rightarrow> 'c option) \<Rightarrow> error + 'c step" where
  "create_step automations_config (VStr step_name) classes =
     (case classes step_name of
        None \<Rightarrow> Inl KeyError
      | Some cls \<Rightarrow>
          (case py_get automations_config step_name (VDict []) of
             Inl e \<Rightarrow> Inl e
           | Inr blob \<Rightarrow> Inr \<lparr>step_class = cls, step_config = blob\<rparr>))"
| "create_step automations_config (VList xs) classes = Inl TypeError"
| "create_step automations_config (VDict kvs) classes = Inl TypeError"
| "create_step automations_config v classes = Inl KeyError"

text \<open>The list comprehensions of \<^verbatim>\<open>_create_automation_details\<close>: one \<^verbatim>\<open>_create_step\<close> per
  name, in order, the first exception ending the comprehension.\<close>

fun create_steps :: "cfg_value \<Rightarrow> cfg_value list \<Rightarrow> (string \<Rightarrow> 'c option) \<Rightarrow> error + 'c step list" where
  "create_steps automations_config [] classes = Inr []"
| "create_steps automations_config (n # ns) classes =
     (case create_step automations_config n classes of
        Inl e \<Rightarrow> Inl e
      | Inr s \<Rightarrow>
          (case create_steps automations_config ns classes of
             Inl e \<Rightarrow> Inl e
           | Inr ss \<Rightarrow> Inr (s # ss)))"

text \<open>\<^verbatim>\<open>_is_valid_automation_config\<close>:
  \<^verbatim>\<open>automation_config.get(self.TRIGGER_EVENT) is not None\<close>.\<close>

definition is_valid_automation_config :: "cfg_value \<Rightarrow> error + bool" where
  "is_valid_automation_config automation_config =
     (case py_get automation_config TRIGGER_EVENT VNone of
        Inl e \<Rightarrow> Inl e
      | Inr v \<Rightarrow> Inr (v \<noteq> VNone))"

text \<open>The names listed under a key of one entry: \<^verbatim>\<open>automation_config[key]\<close>, iterated.\<close>

definition listed_names :: "cfg_value \<Rightarrow> string \<Rightarrow> error + cfg_value list" where
  "listed_names automation_config key =
     (case py_getitem automation_config key of Inl e \<Rightarrow> Inl e | Inr v \<Rightarrow> py_iter v)"

text \<open>The body of the loop of \<^verbatim>\<open>_create_automation_details\<close> after the two guards: the
  trigger, then the conditions, then the actions, then the \<open>AutomationDetails\<close>.\<close>

definition create_automation_detail ::
  "'c all_steps \<Rightarrow> cfg_value \<Rightarrow> error + 'c AutomationDetails" where
  "create_automation_detail steps automation_config =
     (case py_getitem automation_config TRIGGER_EVENT of
        Inl e \<Rightarrow> Inl e
      | Inr name \<Rightarrow>
     (case create_step automation_config name (all_events steps) of
        Inl e \<Rightarrow> Inl e
      | Inr event \<Rightarrow>
     (case listed_names automation_config CONDITIONS of
        Inl e \<Rightarrow> Inl e
      | Inr cnames \<Rightarrow>
     (case create_steps automation_config cnames (all_conditions steps) of
        Inl e \<Rightarrow> Inl e
      | Inr cs \<Rightarrow>
     (case listed_names automation_config ACTIONS of
        Inl e \<Rightarrow> Inl e
      | Inr anames \<Rightarrow>
     (case create_steps automation_config anames (all_actions steps) of
        Inl e \<Rightarrow> Inl e
      | Inr as \<Rightarrow>
          Inr \<lparr>trigger_event = event, conditions = cs, actions = as\<rparr>))))))"

text \<open>
  The \<^verbatim>\<open>for\<close> loop of \<^verbatim>\<open>_create_automation_details\<close> over the items of the rule table, with
  the list \<^verbatim>\<open>self.automation_details\<close> as accumulator. The result is the exception that
  escaped, if any, and the list as the loop left it: \<^verbatim>\<open>return\<close> at the first id above the
  count, \<^verbatim>\<open>continue\<close> at an entry without trigger, \<^verbatim>\<open>append\<close> otherwise.
\<close>

fun create_automation_details_loop ::
  "'c all_steps \<Rightarrow> cfg_value \<Rightarrow> (string \<times> cfg_value) list \<Rightarrow> 'c AutomationDetails list
     \<Rightarrow> error option \<times> 'c AutomationDetails list" where
  "create_automation_details_loop steps automations_count [] details = (None, details)"
| "create_automation_details_loop steps automations_count ((automation_id, automation_config) # rest) details =
     (case py_int automation_id of
        Inl e \<Rightarrow> (Some e, details)
      | Inr n \<Rightarrow>
     (case py_gt n automations_count of
        Inl e \<Rightarrow> (Some e, details)
      | Inr True \<Rightarrow> (None, details)
      | Inr False \<Rightarrow>
     (case is_valid_automation_config automation_config of
        Inl e \<Rightarrow> (Some e, details)
      | Inr False \<Rightarrow> create_automation_details_loop steps automations_count rest details
      | Inr True \<Rightarrow>
     (case create_automation_detail steps automation_config of
        Inl e \<Rightarrow> (Some e, details)
      | Inr d \<Rightarrow> create_automation_details_loop steps automations_count rest (details @ [d])))))"

section \<open>The Automation object: start, stop, restart\<close>

text \<open>
  An \<^verbatim>\<open>asyncio\<close> task as the code observes it: the rule its \<^verbatim>\<open>_run_automation\<close> coroutine
  runs, and whether it is still pending, has a cancellation requested that the event
  loop has not delivered yet, or is done. \<^verbatim>\<open>task.done()\<close> holds of a finished task only;
  \<^verbatim>\<open>task.cancel()\<close> requests the cancellation of a task that is not done and does nothing
  to one that is.
\<close>

datatype task_status = Pending | CancelRequested | Finished

record 'c task =
  task_coro :: "'c AutomationDetails"
  task_status :: task_status

definition create_task :: "'c AutomationDetails \<Rightarrow> 'c task" where
  "create_task automation_detail = \<lparr>task_coro = automation_detail, task_status = Pending\<rparr>"

definition task_done :: "'c task \<Rightarrow> bool" where
  "task_done t \<longleftrightarrow> task_status t = Finished"

definition task_cancel :: "'c task \<Rightarrow> 'c task" where
  "task_cancel t = (if task_done t then t else t\<lparr>task_status := CancelRequested\<rparr>)"

datatype log_entry = Debug string | Info string

text \<open>The fields of \<^verbatim>\<open>class Automation\<close> that the lifecycle reads and writes, and what its
  logger received.\<close>

record 'c automation =
  automations_config :: cfg_value
  automation_tasks :: "'c task list"
  automation_details :: "'c AutomationDetails list"
  logs :: "log_entry list"

text \<open>\<^verbatim>\<open>__init__\<close>: no task, no rule.\<close>

definition init_automation :: "cfg_value \<Rightarrow> 'c automation" where
  "init_automation config =
     \<lparr>automations_config = config, automation_tasks = [],
      automation_details = [], logs = []\<rparr>"

text \<open>\<^verbatim>\<open>_create_automation_details\<close>: the count (default 0), the items of the rule table
  (default empty), then the loop, which appends to \<^verbatim>\<open>self.automation_details\<close>.\<close>

definition create_automation_details ::
  "'c all_steps \<Rightarrow> 'c automation \<Rightarrow> error option \<times> 'c automation" where
  "create_automation_details steps self =
     (case py_get (automations_config self) AUTOMATIONS_COUNT (VInt 0) of
        Inl e \<Rightarrow> (Some e, self)
      | Inr automations_count \<Rightarrow>
     (case py_get (automations_config self) AUTOMATIONS (VDict []) of
        Inl e \<Rightarrow> (Some e, self)
      | Inr table \<Rightarrow>
     (case py_items table of
        Inl e \<Rightarrow> (Some e, self)
      | Inr entries \<Rightarrow>
          (case create_automation_details_loop steps automations_count entries
                  (automation_details self) of
             (r, details) \<Rightarrow> (r, self\<lparr>automation_details := details\<rparr>)))))"

text \<open>\<^verbatim>\<open>start\<close>: an exception of the binding pass leaves before any task is created.\<close>

definition start :: "'c all_steps \<Rightarrow> 'c automation \<Rightarrow> error option \<times> 'c automation" where
  "start steps self =
     (case create_automation_details steps self of
        (Some e, self1) \<Rightarrow> (Some e, self1)
      | (None, self1) \<Rightarrow>
          (let self2 = self1\<lparr>automation_tasks := map create_task (automation_details self1)\<rparr>
           in if automation_details self2 = []
              then (None, self2\<lparr>logs := logs self2 @ [Debug ''No automation to start'']\<rparr>)
              else (None, self2)))"

text \<open>\<^verbatim>\<open>stop\<close>: cancels every task of the list that is not done.\<close>

definition stop :: "'c automation \<Rightarrow> error option \<times> 'c automation" where
  "stop self =
     (if automation_tasks self \<noteq> []
      then (None, self\<lparr>logs := logs self @ [Debug ''Stopping automation tasks''],
                         automation_tasks :=
                           map (\<lambda>t. if \<not> task_done t then task_cancel t else t)
                             (automation_tasks self)\<rparr>)
      else (None, self))"

text \<open>
  \<^verbatim>\<open>load_and_save_user_inputs\<close> belongs to the base class, outside this file; it calls
  \<^verbatim>\<open>init_user_inputs\<close>, of which the model keeps what acts on the fields above: the reset of
  \<^verbatim>\<open>self.automation_details\<close> and the first read of the configuration.
\<close>

definition init_user_inputs :: "'c automation \<Rightarrow> error option \<times> 'c automation" where
  "init_user_inputs self =
     (let self1 = self\<lparr>automation_details := []\<rparr>
      in case py_get (automations_config self1) AUTOMATIONS_COUNT (VInt 0) of
           Inl e \<Rightarrow> (Some e, self1)
         | Inr automations_count \<Rightarrow> (None, self1))"

text \<open>
  \<^verbatim>\<open>restart\<close>. \<open>enable_automations\<close> is \<^verbatim>\<open>constants.ENABLE_AUTOMATIONS\<close> and \<open>tentacle_config\<close>
  is what \<^verbatim>\<open>get_tentacle_config\<close> returns; both come from outside this file.
\<close>

definition restart ::
  "bool \<Rightarrow> cfg_value \<Rightarrow> 'c all_steps \<Rightarrow> 'c automation \<Rightarrow> error option \<times> 'c automation" where
  "restart enable_automations tentacle_config steps self =
     (if \<not> enable_automations then (Some DisabledError, self)
      else
        (case stop self of
           (Some e, self1) \<Rightarrow> (Some e, self1)
         | (None, self1) \<Rightarrow>
             (case init_user_inputs (self1\<lparr>automations_config := tentacle_config\<rparr>) of
                (Some e, self2) \<Rightarrow> (Some e, self2)
              | (None, self2) \<Rightarrow> start steps self2)))"

text \<open>\<^verbatim>\<open>initialize\<close>.\<close>

definition initialize ::
  "bool \<Rightarrow> cfg_value \<Rightarrow> 'c all_steps \<Rightarrow> 'c automation \<Rightarrow> error option \<times> 'c automation" where
  "initialize enable_automations tentacle_config steps self =
     (if enable_automations then restart enable_automations tentacle_config steps self
      else (None, self\<lparr>logs := logs self @ [Info ''Automations are disabled'']\<rparr>))"

section \<open>The loop of one rule\<close>

text \<open>
  The conditions and actions are external code with effects of their own. \<open>'w\<close> is the
  state of everything they touch; \<open>evaluate\<close> and \<open>process\<close> give what a call returns or
  raises and the state it leaves. Each function below returns its result, the state,
  and the events it produced in order: the calls it made and the lines it logged.
\<close>

datatype 'c event =
    CallEvaluate "'c step"
  | CallProcess "'c step"
  | LogStarting "'c AutomationDetails"
  | LogTriggered "'c step"
  | LogNotValid "'c step" "'c step"
  | LogAllValid "'c step"
  | LogRunning "'c step" "'c step"
  | LogException error

fun is_call :: "'c event \<Rightarrow> bool" where
  "is_call (CallEvaluate c) = True"
| "is_call (CallProcess a) = True"
| "is_call e = False"

text \<open>\<^verbatim>\<open>_check_conditions\<close>: the first condition that is not satisfied returns \<open>False\<close>; an
  exception of \<^verbatim>\<open>evaluate\<close> is not caught.\<close>

fun check_conditions_loop ::
  "('c step \<Rightarrow> 'w \<Rightarrow> (error + bool) \<times> 'w) \<Rightarrow> 'c step \<Rightarrow> 'c step list \<Rightarrow> 'w
     \<Rightarrow> (error + bool) \<times> 'w \<times> 'c event list" where
  "check_conditions_loop evaluate trigger [] w = (Inr True, w, [])"
| "check_conditions_loop evaluate trigger (condition # rest) w =
     (case evaluate condition w of
        (Inl e, w1) \<Rightarrow> (Inl e, w1, [CallEvaluate condition])
      | (Inr False, w1) \<Rightarrow> (Inr False, w1, [CallEvaluate condition, LogNotValid condition trigger])
      | (Inr True, w1) \<Rightarrow>
          (case check_conditions_loop evaluate trigger rest w1 of
             (r, w2, evs) \<Rightarrow> (r, w2, CallEvaluate condition # LogAllValid trigger # evs)))"

definition check_conditions ::
  "('c step \<Rightarrow> 'w \<Rightarrow> (error + bool) \<times> 'w) \<Rightarrow> 'c AutomationDetails \<Rightarrow> 'w
     \<Rightarrow> (error + bool) \<times> 'w \<times> 'c event list" where
  "check_conditions evaluate automation_detail w =
     check_conditions_loop evaluate (trigger_event automation_detail)
       (conditions automation_detail) w"

text \<open>\<^verbatim>\<open>_process_actions\<close>: \<^verbatim>\<open>except Exception\<close> around each action; what is not an
  \<^verbatim>\<open>Exception\<close> escapes.\<close>

fun process_actions_loop ::
  "('c step \<Rightarrow> 'w \<Rightarrow> error option \<times> 'w) \<Rightarrow> 'c step \<Rightarrow> 'c step list \<Rightarrow> 'w
     \<Rightarrow> error option \<times> 'w \<times> 'c event list" where
  "process_actions_loop process trigger [] w = (None, w, [])"
| "process_actions_loop process trigger (action # rest) w =
     (case process action w of
        (None, w1) \<Rightarrow>
          (case process_actions_loop process trigger rest w1 of
             (r, w2, evs) \<Rightarrow> (r, w2, LogRunning action trigger # CallProcess action # evs))
      | (Some err, w1) \<Rightarrow>
          (if is_Exception err then
             (case process_actions_loop process trigger rest w1 of
                (r, w2, evs) \<Rightarrow>
                  (r, w2, LogRunning action trigger # CallProcess action # LogException err # evs))
           else (Some err, w1, [LogRunning action trigger, CallProcess action])))"

definition process_actions ::
  "('c step \<Rightarrow> 'w \<Rightarrow> error option \<times> 'w) \<Rightarrow> 'c AutomationDetails \<Rightarrow> 'w
     \<Rightarrow> error option \<times> 'w \<times> 'c event list" where
  "process_actions process automation_detail w =
     process_actions_loop process (trigger_event automation_detail)
       (actions automation_detail) w"

text \<open>The body of the \<^verbatim>\<open>async for\<close> of \<^verbatim>\<open>_run_automation\<close>, for one firing.\<close>

definition run_firing ::
  "('c step \<Rightarrow> 'w \<Rightarrow> (error + bool) \<times> 'w) \<Rightarrow> ('c step \<Rightarrow> 'w \<Rightarrow> error option \<times> 'w)
     \<Rightarrow> 'c AutomationDetails \<Rightarrow> 'w \<Rightarrow> error option \<times> 'w \<times> 'c event list" where
  "run_firing evaluate process automation_detail w =
     (case check_conditions evaluate automation_detail w of
        (Inl e, w1, evs) \<Rightarrow> (Some e, w1, LogTriggered (trigger_event automation_detail) # evs)
      | (Inr False, w1, evs) \<Rightarrow> (None, w1, LogTriggered (trigger_event automation_detail) # evs)
      | (Inr True, w1, evs) \<Rightarrow>
          (case process_actions process automation_detail w1 of
             (r, w2, evs2) \<Rightarrow>
               (r, w2, LogTriggered (trigger_event automation_detail) # evs @ evs2)))"

text \<open>
  \<^verbatim>\<open>_run_automation\<close> over the firings the trigger produces. The trigger is external; the
  loop is given the firings as a list, and returns when they are exhausted or when an
  exception leaves the body.
\<close>

fun run_automation_loop ::
  "('c step \<Rightarrow> 'w \<Rightarrow> (error + bool) \<times> 'w) \<Rightarrow> ('c step \<Rightarrow> 'w \<Rightarrow> error option \<times> 'w)
     \<Rightarrow> 'c AutomationDetails \<Rightarrow> 'f list \<Rightarrow> 'w \<Rightarrow> error option \<times> 'w \<times> 'c event list" where
  "run_automation_loop evaluate process automation_detail [] w = (None, w, [])"
| "run_automation_loop evaluate process automation_detail (firing # rest) w =
     (case run_firing evaluate process automation_detail w of
        (Some e, w1, evs) \<Rightarrow> (Some e, w1, evs)
      | (None, w1, evs) \<Rightarrow>
          (case run_automation_loop evaluate process automation_detail rest w1 of
             (r, w2, evs2) \<Rightarrow> (r, w2, evs @ evs2)))"

definition run_automation ::
  "('c step \<Rightarrow> 'w \<Rightarrow> (error + bool) \<times> 'w) \<Rightarrow> ('c step \<Rightarrow> 'w \<Rightarrow> error option \<times> 'w)
     \<Rightarrow> 'c AutomationDetails \<Rightarrow> 'f list \<Rightarrow> 'w \<Rightarrow> error option \<times> 'w \<times> 'c event list" where
  "run_automation evaluate process automation_detail firings w =
     (case run_automation_loop evaluate process automation_detail firings w of
        (r, w1, evs) \<Rightarrow> (r, w1, LogStarting automation_detail # evs))"

section \<open>Observations used by the properties\<close>

text \<open>What each action of a list returns or raises when the actions are called one after
  the other, each from the state the previous one left.\<close>

fun action_outcomes ::
  "('c step \<Rightarrow> 'w \<Rightarrow> error option \<times> 'w) \<Rightarrow> 'c step list \<Rightarrow> 'w \<Rightarrow> error option list" where
  "action_outcomes process [] w = []"
| "action_outcomes process (action # rest) w =
     (case process action w of (r, w1) \<Rightarrow> r # action_outcomes process rest w1)"

text \<open>The events of one attempted action: the debug line, the call, and the logged
  exception when the call raised.\<close>

fun action_events :: "'c step \<Rightarrow> 'c step \<Rightarrow> error option \<Rightarrow> 'c event list" where
  "action_events trigger action None = [LogRunning action trigger, CallProcess action]"
| "action_events trigger action (Some err) =
     [LogRunning action trigger, CallProcess action, LogException err]"

text \<open>An outcome that \<^verbatim>\<open>except Exception\<close> lets the loop survive.\<close>

definition caught :: "error option \<Rightarrow> bool" where
  "caught r = (case r of None \<Rightarrow> True | Some err \<Rightarrow> is_Exception err)"


subsection \<open>Concrete steps, rules and configurations\<close>

text \<open>The registry holding the three default steps named by \<^verbatim>\<open>_get_default_steps\<close>; a class
  is written as its name.\<close>

definition example_steps :: "string all_steps" where
  "example_steps =
     \<lparr>all_events = [''PeriodicCheck'' \<mapsto> ''PeriodicCheck''],
      all_conditions = [''NoCondition'' \<mapsto> ''NoCondition''],
      all_actions = [''SendNotification'' \<mapsto> ''SendNotification'']\<rparr>"

definition mk_step :: "string \<Rightarrow> string step" where
  "mk_step name = \<lparr>step_class = name, step_config = VDict []\<rparr>"

definition example_entry :: cfg_value where
  "example_entry =
     VDict [(TRIGGER_EVENT, VStr ''PeriodicCheck''),
            (CONDITIONS, VList [VStr ''NoCondition'']),
            (ACTIONS, VList [VStr ''SendNotification''])]"

definition example_rule :: "string AutomationDetails" where
  "example_rule =
     \<lparr>trigger_event = mk_step ''PeriodicCheck'',
      conditions = [mk_step ''NoCondition''],
      actions = [mk_step ''SendNotification'']\<rparr>"

text \<open>Conditions and actions for the examples, over a state that counts the calls made:
  \<open>NoCondition\<close> holds, \<open>Never\<close> does not, any other condition raises;
  \<open>SendNotification\<close> succeeds, any other action raises.\<close>

definition example_evaluate :: "string step \<Rightarrow> nat \<Rightarrow> (error + bool) \<times> nat" where
  "example_evaluate condition w =
     (if step_class condition = ''NoCondition'' then (Inr True, Suc w)
      else if step_class condition = ''Never'' then (Inr False, Suc w)
      else (Inl (StepError ''evaluate failed''), Suc w))"

definition example_process :: "string step \<Rightarrow> nat \<Rightarrow> error option \<times> nat" where
  "example_process action w =
     (if step_class action = ''SendNotification'' then (None, Suc w)
      else (Some (StepError ''process failed''), Suc w))"

definition failing_action_rule :: "string AutomationDetails" where
  "failing_action_rule =
     \<lparr>trigger_event = mk_step ''PeriodicCheck'',
      conditions = [],
      actions = [mk_step ''Failing'', mk_step ''SendNotification'']\<rparr>"

definition false_condition_rule :: "string AutomationDetails" where
  "false_condition_rule =
     \<lparr>trigger_event = mk_step ''PeriodicCheck'',
      conditions = [mk_step ''NoCondition'', mk_step ''Never'', mk_step ''NoCondition''],
      actions = [mk_step ''SendNotification'']\<rparr>"

definition raising_condition_rule :: "string AutomationDetails" where
  "raising_condition_rule =
     \<lparr>trigger_event = mk_step ''PeriodicCheck'',
      conditions = [mk_step ''NoCondition'', mk_step ''Broken'', mk_step ''NoCondition''],
      actions = [mk_step ''SendNotification'']\<rparr>"

text \<open>An automation with one running task and one task that has finished.\<close>

definition example_running :: "string automation" where
  "example_running =
     \<lparr>automations_config = VDict [],
      automation_tasks = [create_task example_rule,
                          \<lparr>task_coro = failing_action_rule, task_status = Finished\<rparr>],
      automation_details = [example_rule, failing_action_rule],
      logs = []\<rparr>"

subsection \<open>The binding pass and the tasks, as the properties read them\<close>








text \<open>Two rules, the first with a trigger name that the registry does not know.\<close>

definition unknown_trigger_config :: cfg_value where
  "unknown_trigger_config =
     VDict [(AUTOMATIONS_COUNT, VInt 2),
            (AUTOMATIONS,
             VDict [(''1'', VDict [(TRIGGER_EVENT, VStr ''Unknown''),
                                   (CONDITIONS, VList []),
                                   (ACTIONS, VList [])]),
                    (''2'', example_entry)])]"

text \<open>One rule with a known trigger, a known condition and an unknown one.\<close>

definition unknown_condition_config :: cfg_value where
  "unknown_condition_config =
     VDict [(AUTOMATIONS_COUNT, VInt 1),
            (AUTOMATIONS,
             VDict [(''1'', VDict [(TRIGGER_EVENT, VStr ''PeriodicCheck''),
                                   (CONDITIONS, VList [VStr ''NoCondition'', VStr ''Unknown'']),
                                   (ACTIONS, VList [VStr ''SendNotification''])])])]"


section \<open>The loop of one rule: properties\<close>

lemma check_loop_append:
  "check_conditions_loop ev t pre w = (Inr True, w1, evs1) \<Longrightarrow>
   check_conditions_loop ev t (pre @ rest) w =
     (case check_conditions_loop ev t rest w1 of (r, w2, evs2) \<Rightarrow> (r, w2, evs1 @ evs2))"
proof (induction pre arbitrary: w evs1)
  case Nil
  then show ?case by (simp split: prod.splits)
next
  case (Cons c pre)
  then show ?case
    by (auto split: prod.splits sum.splits bool.splits if_splits)
qed

lemma check_loop_true_calls:
  "check_conditions_loop ev t cs w = (Inr True, w1, evs) \<Longrightarrow>
   filter is_call evs = map CallEvaluate cs"
proof (induction cs arbitrary: w evs)
  case Nil
  then show ?case by simp
next
  case (Cons c cs)
  then show ?case
    by (auto split: prod.splits sum.splits bool.splits if_splits)
qed

lemma length_action_outcomes: "length (action_outcomes pr as w) = length as"
  by (induction as arbitrary: w) (auto split: prod.splits)

lemma process_loop_events:
  "list_all caught (action_outcomes pr as w) \<Longrightarrow>
   \<exists>w2. process_actions_loop pr t as w =
     (None, w2, concat (map2 (action_events t) as (action_outcomes pr as w)))"
proof (induction as arbitrary: w)
  case Nil
  then show ?case by simp
next
  case (Cons a as)
  obtain r w1 where step: "pr a w = (r, w1)" by (cases "pr a w")
  with Cons.prems have c: "caught r" and rest: "list_all caught (action_outcomes pr as w1)"
    by simp_all
  from Cons.IH [OF rest] obtain w2 where
    ih: "process_actions_loop pr t as w1 =
           (None, w2, concat (map2 (action_events t) as (action_outcomes pr as w1)))"
    by blast
  show ?case
  proof (cases r)
    case None
    with step ih show ?thesis by simp
  next
    case (Some err)
    with c have "is_Exception err" by (simp add: caught_def)
    with Some step ih show ?thesis by simp
  qed
qed

lemma action_events_calls:
  "length rs = length as \<Longrightarrow>
   filter is_call (concat (map2 (action_events t) as rs)) = map CallProcess as"
proof (induction as arbitrary: rs)
  case Nil
  then show ?case by simp
next
  case (Cons a as)
  then obtain r rs' where "rs = r # rs'" by (cases rs) auto
  with Cons show ?case by (cases r) auto
qed

text \<open>
  C4. When the conditions of a rule all pass for a firing (an empty list included), every
  action of the rule is attempted, in declared order: the calls of \<^verbatim>\<open>process\<close> made for the
  firing are exactly the actions of the rule, one each, in order. An \<^verbatim>\<open>Exception\<close> raised
  by an action is logged right after its call and does not leave \<^verbatim>\<open>_process_actions\<close>,
  the next action is attempted from the state the failing one left, and the loop of
  \<^verbatim>\<open>_run_automation\<close> goes on with the next firing.
\<close>

theorem actions_all_attempted:
  assumes "check_conditions evaluate d w = (Inr True, w1, evs)"
    and "list_all caught (action_outcomes process (actions d) w1)"
  shows "\<exists>w2 evs2.
     process_actions process d w1 = (None, w2, evs2) \<and>
     evs2 = concat (map2 (action_events (trigger_event d)) (actions d)
                      (action_outcomes process (actions d) w1)) \<and>
     filter is_call evs2 = map CallProcess (actions d) \<and>
     run_firing evaluate process d w = (None, w2, LogTriggered (trigger_event d) # evs @ evs2) \<and>
     run_automation_loop evaluate process d (firing # rest) w =
       (case run_automation_loop evaluate process d rest w2 of
          (r, w3, evs3) \<Rightarrow> (r, w3, (LogTriggered (trigger_event d) # evs @ evs2) @ evs3))"
proof -
  let ?evs2 = "concat (map2 (action_events (trigger_event d)) (actions d)
                         (action_outcomes process (actions d) w1))"
  from process_loop_events [OF assms(2)] obtain w2 where
    p: "process_actions process d w1 = (None, w2, ?evs2)"
    unfolding process_actions_def by blast
  have calls: "filter is_call ?evs2 = map CallProcess (actions d)"
    by (rule action_events_calls) (rule length_action_outcomes)
  have firing: "run_firing evaluate process d w =
      (None, w2, LogTriggered (trigger_event d) # evs @ ?evs2)"
    by (simp add: run_firing_def assms(1) p)
  have "run_automation_loop evaluate process d (firing # rest) w =
       (case run_automation_loop evaluate process d rest w2 of
          (r, w3, evs3) \<Rightarrow> (r, w3, (LogTriggered (trigger_event d) # evs @ ?evs2) @ evs3))"
    by (simp add: firing)
  with p calls firing show ?thesis by blast
qed

theorem actions_all_attempted_witness:
  "check_conditions example_evaluate failing_action_rule 0 = (Inr True, 0, []) \<and>
   list_all caught (action_outcomes example_process (actions failing_action_rule) 0) \<and>
   (\<exists>w2 evs2.
     process_actions example_process failing_action_rule 0 = (None, w2, evs2) \<and>
     evs2 = concat (map2 (action_events (trigger_event failing_action_rule))
                      (actions failing_action_rule)
                      (action_outcomes example_process (actions failing_action_rule) 0)) \<and>
     filter is_call evs2 = map CallProcess (actions failing_action_rule) \<and>
     run_firing example_evaluate example_process failing_action_rule 0 =
       (None, w2, LogTriggered (trigger_event failing_action_rule) # [] @ evs2) \<and>
     run_automation_loop example_evaluate example_process failing_action_rule [(), ()] 0 =
       (case run_automation_loop example_evaluate example_process failing_action_rule [()] w2 of
          (r, w3, evs3) \<Rightarrow>
            (r, w3, (LogTriggered (trigger_event failing_action_rule) # [] @ evs2) @ evs3)))"
proof -
  have h1: "check_conditions example_evaluate failing_action_rule 0 = (Inr True, 0, [])"
    by (simp add: check_conditions_def failing_action_rule_def)
  have h2: "list_all caught (action_outcomes example_process (actions failing_action_rule) 0)"
    by (simp add: failing_action_rule_def example_process_def mk_step_def caught_def)
  from actions_all_attempted [OF h1 h2, of "()" "[()]"] h1 h2 show ?thesis by blast
qed

text \<open>
  C5. The conditions of a rule are evaluated in declared order, and the first one that
  returns false ends the evaluation for that firing: when the conditions before \<open>c\<close> all
  pass and \<open>c\<close> does not, the calls made for the firing are the evaluations of those
  conditions and of \<open>c\<close>, in order, and nothing else. No later condition is evaluated
  and no action is run; the firing ends without an exception.
\<close>

theorem conditions_short_circuit:
  assumes "conditions d = pre @ c # post"
    and "check_conditions_loop evaluate (trigger_event d) pre w = (Inr True, w1, evs1)"
    and "evaluate c w1 = (Inr False, w2)"
  shows "check_conditions evaluate d w =
       (Inr False, w2, evs1 @ [CallEvaluate c, LogNotValid c (trigger_event d)]) \<and>
     run_firing evaluate process d w =
       (None, w2, LogTriggered (trigger_event d) # evs1 @
                    [CallEvaluate c, LogNotValid c (trigger_event d)]) \<and>
     filter is_call (LogTriggered (trigger_event d) # evs1 @
                       [CallEvaluate c, LogNotValid c (trigger_event d)])
       = map CallEvaluate (pre @ [c])"
proof -
  have chk: "check_conditions evaluate d w =
       (Inr False, w2, evs1 @ [CallEvaluate c, LogNotValid c (trigger_event d)])"
    unfolding check_conditions_def assms(1)
    by (simp add: check_loop_append [OF assms(2)] assms(3))
  have run: "run_firing evaluate process d w =
       (None, w2, LogTriggered (trigger_event d) # evs1 @
                    [CallEvaluate c, LogNotValid c (trigger_event d)])"
    by (simp add: run_firing_def chk)
  have "filter is_call evs1 = map CallEvaluate pre"
    by (rule check_loop_true_calls [OF assms(2)])
  then have "filter is_call (LogTriggered (trigger_event d) # evs1 @
                       [CallEvaluate c, LogNotValid c (trigger_event d)])
       = map CallEvaluate (pre @ [c])"
    by simp
  with chk run show ?thesis by blast
qed

theorem conditions_short_circuit_witness:
  "conditions false_condition_rule = [mk_step ''NoCondition''] @ mk_step ''Never'' # [mk_step ''NoCondition''] \<and>
   check_conditions_loop example_evaluate (trigger_event false_condition_rule)
       [mk_step ''NoCondition''] 0
     = (Inr True, 1, [CallEvaluate (mk_step ''NoCondition''),
                      LogAllValid (trigger_event false_condition_rule)]) \<and>
   example_evaluate (mk_step ''Never'') 1 = (Inr False, 2) \<and>
   run_firing example_evaluate example_process false_condition_rule 0 =
       (None, 2, LogTriggered (trigger_event false_condition_rule) #
                   [CallEvaluate (mk_step ''NoCondition''),
                    LogAllValid (trigger_event false_condition_rule)] @
                   [CallEvaluate (mk_step ''Never''),
                    LogNotValid (mk_step ''Never'') (trigger_event false_condition_rule)])"
proof -
  have h1: "conditions false_condition_rule =
      [mk_step ''NoCondition''] @ mk_step ''Never'' # [mk_step ''NoCondition'']"
    by (simp add: false_condition_rule_def)
  have h2: "check_conditions_loop example_evaluate (trigger_event false_condition_rule)
       [mk_step ''NoCondition''] 0
     = (Inr True, 1, [CallEvaluate (mk_step ''NoCondition''),
                      LogAllValid (trigger_event false_condition_rule)])"
    by (simp add: example_evaluate_def mk_step_def)
  have h3: "example_evaluate (mk_step ''Never'') 1 = (Inr False, 2)"
    by (simp add: example_evaluate_def mk_step_def)
  from conditions_short_circuit [OF h1 h2 h3, of example_process] h1 h2 h3
  show ?thesis by blast
qed

text \<open>
  C7. An exception raised by \<^verbatim>\<open>evaluate\<close> is not caught: when the conditions before \<open>c\<close>
  all pass and \<open>c\<close> raises \<open>e\<close>, \<^verbatim>\<open>_check_conditions\<close> raises \<open>e\<close>, the body of the loop of
  \<^verbatim>\<open>_run_automation\<close> raises \<open>e\<close>, and so does \<^verbatim>\<open>_run_automation\<close> itself, whatever firings
  were still to come. The calls made are the evaluations up to and including \<open>c\<close>: no
  action of that firing is run.
\<close>

theorem condition_exception_propagates:
  assumes "conditions d = pre @ c # post"
    and "check_conditions_loop evaluate (trigger_event d) pre w = (Inr True, w1, evs1)"
    and "evaluate c w1 = (Inl e, w2)"
  shows "check_conditions evaluate d w = (Inl e, w2, evs1 @ [CallEvaluate c]) \<and>
     run_firing evaluate process d w =
       (Some e, w2, LogTriggered (trigger_event d) # evs1 @ [CallEvaluate c]) \<and>
     run_automation_loop evaluate process d (firing # rest) w =
       (Some e, w2, LogTriggered (trigger_event d) # evs1 @ [CallEvaluate c]) \<and>
     run_automation evaluate process d (firing # rest) w =
       (Some e, w2, LogStarting d # LogTriggered (trigger_event d) # evs1 @ [CallEvaluate c]) \<and>
     filter is_call (LogStarting d # LogTriggered (trigger_event d) # evs1 @ [CallEvaluate c])
       = map CallEvaluate (pre @ [c])"
proof -
  have chk: "check_conditions evaluate d w = (Inl e, w2, evs1 @ [CallEvaluate c])"
    unfolding check_conditions_def assms(1)
    by (simp add: check_loop_append [OF assms(2)] assms(3))
  have run: "run_firing evaluate process d w =
       (Some e, w2, LogTriggered (trigger_event d) # evs1 @ [CallEvaluate c])"
    by (simp add: run_firing_def chk)
  have loop: "run_automation_loop evaluate process d (firing # rest) w =
       (Some e, w2, LogTriggered (trigger_event d) # evs1 @ [CallEvaluate c])"
    by (simp add: run)
  have whole: "run_automation evaluate process d (firing # rest) w =
       (Some e, w2, LogStarting d # LogTriggered (trigger_event d) # evs1 @ [CallEvaluate c])"
    unfolding run_automation_def loop by simp
  have "filter is_call evs1 = map CallEvaluate pre"
    by (rule check_loop_true_calls [OF assms(2)])
  then have "filter is_call
       (LogStarting d # LogTriggered (trigger_event d) # evs1 @ [CallEvaluate c])
       = map CallEvaluate (pre @ [c])"
    by simp
  with chk run loop whole show ?thesis by blast
qed

theorem condition_exception_propagates_witness:
  "conditions raising_condition_rule =
      [mk_step ''NoCondition''] @ mk_step ''Broken'' # [mk_step ''NoCondition''] \<and>
   check_conditions_loop example_evaluate (trigger_event raising_condition_rule)
       [mk_step ''NoCondition''] 0
     = (Inr True, 1, [CallEvaluate (mk_step ''NoCondition''),
                      LogAllValid (trigger_event raising_condition_rule)]) \<and>
   example_evaluate (mk_step ''Broken'') 1 = (Inl (StepError ''evaluate failed''), 2) \<and>
   run_automation example_evaluate example_process raising_condition_rule [(), ()] 0 =
       (Some (StepError ''evaluate failed''), 2,
        LogStarting raising_condition_rule #
        LogTriggered (trigger_event raising_condition_rule) #
        [CallEvaluate (mk_step ''NoCondition''),
         LogAllValid (trigger_event raising_condition_rule)] @
        [CallEvaluate (mk_step ''Broken'')])"
proof -
  have h1: "conditions raising_condition_rule =
      [mk_step ''NoCondition''] @ mk_step ''Broken'' # [mk_step ''NoCondition'']"
    by (simp add: raising_condition_rule_def)
  have h2: "check_conditions_loop example_evaluate (trigger_event raising_condition_rule)
       [mk_step ''NoCondition''] 0
     = (Inr True, 1, [CallEvaluate (mk_step ''NoCondition''),
                      LogAllValid (trigger_event raising_condition_rule)])"
    by (simp add: example_evaluate_def mk_step_def)
  have h3: "example_evaluate (mk_step ''Broken'') 1 = (Inl (StepError ''evaluate failed''), 2)"
    by (simp add: example_evaluate_def mk_step_def)
  from condition_exception_propagates [OF h1 h2 h3, of example_process "()" "[()]"] h1 h2 h3
  show ?thesis by blast
qed

section \<open>The lifecycle: properties\<close>

text \<open>
  C6. \<^verbatim>\<open>restart\<close> called while automations are disabled raises \<open>DisabledError\<close> before
  anything else happens: the tasks, the rules, the stored configuration and the log of
  the automation are exactly what they were.
\<close>

theorem restart_disabled:
  "restart False tentacle_config steps self = (Some DisabledError, self)"
  by (simp add: restart_def)

theorem restart_disabled_witness:
  "restart False (VDict [(AUTOMATIONS_COUNT, VInt 1)]) example_steps example_running
     = (Some DisabledError, example_running)"
  by (rule restart_disabled)




section \<open>The binding pass: properties\<close>

lemmas cfg_keys = AUTOMATIONS_def AUTOMATIONS_COUNT_def TRIGGER_EVENT_def CONDITIONS_def ACTIONS_def

lemmas py_int_defs = py_int_def strip_def is_space_def py_unsigned_def digit_val_def

lemma py_int_1: "py_int ''1'' = Inr 1"
  by (simp add: py_int_defs)




text \<open>
  C1, at a failing input. The configuration declares two rules; the trigger name of rule
  1 is not in the registry, rule 2 is complete. The lookup \<^verbatim>\<open>classes[step_name]\<close> of
  \<^verbatim>\<open>_create_step\<close> raises \<open>KeyError\<close>, nothing catches it, and the pass ends there: no rule
  is bound, not even rule 2, and \<^verbatim>\<open>start\<close> creates no task.
\<close>

theorem unknown_trigger_aborts_binding:
  "create_automation_details example_steps (init_automation unknown_trigger_config)
     = (Some KeyError, init_automation unknown_trigger_config) \<and>
   start example_steps (init_automation unknown_trigger_config)
     = (Some KeyError, init_automation unknown_trigger_config)"
  by (simp add: start_def create_automation_details_def init_automation_def
      unknown_trigger_config_def py_int_1 is_valid_automation_config_def
      create_automation_detail_def example_steps_def cfg_keys)

text \<open>
  C2, at a failing input. The only rule has a known trigger, the known condition
  \<open>NoCondition\<close> and an unknown condition. The unknown name is not dropped: \<^verbatim>\<open>_create_step\<close>
  raises \<open>KeyError\<close> inside the list comprehension, and no rule is built.
\<close>

theorem unknown_condition_aborts_binding:
  "create_automation_details example_steps (init_automation unknown_condition_config)
     = (Some KeyError, init_automation unknown_condition_config) \<and>
   start example_steps (init_automation unknown_condition_config)
     = (Some KeyError, init_automation unknown_condition_config)"
  by (simp add: start_def create_automation_details_def init_automation_def
      unknown_condition_config_def py_int_1 is_valid_automation_config_def
      create_automation_detail_def listed_names_def example_steps_def cfg_keys)

lemma absent_trigger_is_skipped:
  "py_int automation_id = Inr n \<Longrightarrow> py_gt n automations_count = Inr False \<Longrightarrow>
   py_get automation_config TRIGGER_EVENT VNone = Inr VNone \<Longrightarrow>
   create_automation_details_loop steps automations_count
       ((automation_id, automation_config) # rest) details
     = create_automation_details_loop steps automations_count rest details"
  by (simp add: is_valid_automation_config_def)












section \<open>Tasks and rules\<close>




end
